theory Spec2Isabelle
  imports Main
begin

section \<open>Persisted schema (src/db/schema.ts and the SQL migrations)\<close>

text \<open>
  The five tables of the schema. A table is the list of its rows in insertion order. Primary keys are uuids produced by the database
  (\<^verbatim>\<open>gen_random_uuid()\<close>) and timestamps come from \<^verbatim>\<open>now()\<close> or
  \<^verbatim>\<open>new Date()\<close>; both are inputs of the operation that needs them.
  The column \<^verbatim>\<open>status\<close> is declared \<^verbatim>\<open>text\<close>: the enum
  \<^verbatim>\<open>['processing', 'complete']\<close> exists in the TypeScript types only, so a row
  holds whatever string was written.
\<close>

type_synonym uuid = string
type_synonym timestamp = nat
type_synonym json = string

record user =
  u_id :: string
  u_name :: string
  u_email :: string
  u_created_at :: timestamp
  u_updated_at :: timestamp

record case_study =
  cs_id :: uuid
  cs_user_id :: string
  cs_title :: string
  cs_description :: "string option"
  cs_client :: "string option"
  cs_industry :: "string option"
  cs_created_at :: timestamp
  cs_updated_at :: timestamp

record case_study_file =
  f_id :: uuid
  f_case_study_id :: uuid
  f_request_id :: string
  f_file_url :: string
  f_markdown :: "string option"
  f_metadata :: "json option"
  f_created_at :: timestamp
  f_updated_at :: timestamp
  f_status :: string
  f_error :: "string option"

record case_study_image =
  img_id :: uuid
  img_file_id :: uuid
  img_created_at :: timestamp
  img_updated_at :: timestamp
  img_image_url :: string

record case_study_summary =
  sum_id :: uuid
  sum_case_study_id :: uuid
  sum_summary :: string
  sum_created_at :: timestamp
  sum_updated_at :: timestamp

record db =
  users :: "user list"
  caseStudies :: "case_study list"
  caseStudyFiles :: "case_study_file list"
  caseStudyImages :: "case_study_image list"
  caseStudySummaries :: "case_study_summary list"

section \<open>JavaScript values and effects\<close>

text \<open>
  A thrown value is an \<^verbatim>\<open>Error\<close> with its message, or something else.
  An awaited promise either rejects with an Error message or resolves.
  A string is falsy when it is absent or empty.
\<close>

datatype thrown = Error string | NonError

datatype 'a io = Rejects string | Resolves 'a

fun falsy :: "string option \<Rightarrow> bool" where
  "falsy None = True"
| "falsy (Some s) = (s = [])"

fun startsWith :: "string \<Rightarrow> string \<Rightarrow> bool" where
  "startsWith s [] = True"
| "startsWith [] (c # cs) = False"
| "startsWith (x # xs) (c # cs) = (x = c \<and> startsWith xs cs)"

text \<open>\<^verbatim>\<open>s.includes(sub)\<close>: \<open>sub\<close> occurs in \<open>s\<close> as a contiguous substring.\<close>

fun includes_str :: "string \<Rightarrow> string \<Rightarrow> bool" where
  "includes_str [] sub = (sub = [])"
| "includes_str (x # xs) sub = (startsWith (x # xs) sub \<or> includes_str xs sub)"

section \<open>The extraction webhook (src/app/api/webhooks/marker/route.ts)\<close>

text \<open>
  The fetched result, with the field types of the interface \<^verbatim>\<open>MarkerResponse\<close>.
  \<open>images\<close> lists the entries of the object in \<^verbatim>\<open>Object.entries\<close> order; it is
  optional because the handler tests \<^verbatim>\<open>!result.images\<close>.
\<close>

record MarkerResponse =
  output_format :: string
  markdown :: string
  status :: string
  success :: bool
  images :: "(string \<times> string) list option"
  metadata :: json
  error :: string
  page_count :: nat

text \<open>
  The request body. \<open>Unreadable m\<close>: \<^verbatim>\<open>request.json()\<close> rejects or its value
  cannot be destructured (\<^verbatim>\<open>null\<close>), throwing an Error with message \<open>m\<close>.
  Otherwise the three fields, each present or not.
\<close>

datatype request_body =
  Unreadable string
  | Body (request_id: "string option") (request_check_url: "string option")
      (webhook_secret: "string option")

text \<open>What \<^verbatim>\<open>fetch(requestCheckUrl)\<close> and \<^verbatim>\<open>response.json()\<close> do.\<close>

datatype fetch_response =
  FetchRejects thrown
  | NotOk string
  | JsonRejects thrown
  | Fetched MarkerResponse

text \<open>
  What the storage upload does: the promise rejects, resolves with \<^verbatim>\<open>error\<close> set,
  or resolves without error.
\<close>

datatype upload_result = UploadRejects | UploadError | Uploaded

text \<open>
  Everything outside the database that one run of the handler reads. The update of the
  File rows is the first statement of the handler: it is taken to reach the database.
  \<open>select_caseStudies\<close> and \<open>insert_caseStudyImages\<close> say whether the statements
  after it do (a select that is rejected throws out of the handler, an insert that is
  rejected is caught in the loop); an insert that does returns the new row's uuid and
  timestamp.
\<close>

record webhook_env =
  MARKER_WEBHOOK_SECRET :: "string option"
  fetch :: "string \<Rightarrow> fetch_response"
  new_Date :: timestamp
  select_caseStudies :: "unit io"
  storage_upload :: "string \<Rightarrow> string \<Rightarrow> upload_result"
  getPublicUrl :: "string \<Rightarrow> string"
  insert_caseStudyImages :: "string \<Rightarrow> (uuid \<times> timestamp) io"

datatype response_body = Message string | ErrorBody string

record response =
  http_status :: nat
  http_body :: response_body

definition validateWebhook :: "string option \<Rightarrow> request_body \<Rightarrow> thrown + (string \<times> string)" where
  "validateWebhook WEBHOOK_SECRET request =
     (case request of
        Unreadable m \<Rightarrow> Inl (Error m)
      | Body rid url secret \<Rightarrow>
          if falsy secret \<or> secret \<noteq> WEBHOOK_SECRET then Inl (Error ''Invalid webhook secret'')
          else (case (rid, url) of
                  (Some r, Some u) \<Rightarrow>
                    if r = [] \<or> u = [] then Inl (Error ''Missing required fields'')
                    else Inr (r, u)
                | _ \<Rightarrow> Inl (Error ''Missing required fields'')))"

definition fetchMarkerResults :: "(string \<Rightarrow> fetch_response) \<Rightarrow> string \<Rightarrow> thrown + MarkerResponse" where
  "fetchMarkerResults fetch_fn requestCheckUrl =
     (case fetch_fn requestCheckUrl of
        FetchRejects e \<Rightarrow> Inl e
      | NotOk statusText \<Rightarrow> Inl (Error (''Failed to fetch results: '' @ statusText))
      | JsonRejects e \<Rightarrow> Inl e
      | Fetched result \<Rightarrow>
          if \<not> success result
          then Inl (Error (if error result = [] then ''Processing failed'' else error result))
          else Inr result)"

text \<open>
  The \<^verbatim>\<open>UPDATE ... WHERE request_id = $1 RETURNING *\<close>: every row with the request id
  is set, \<^verbatim>\<open>updated_at\<close> by \<^verbatim>\<open>$onUpdateFn\<close>; the first returned row is the result.
\<close>

definition set_from_result :: "timestamp \<Rightarrow> MarkerResponse \<Rightarrow> case_study_file \<Rightarrow> case_study_file" where
  "set_from_result now result f =
     f\<lparr>f_status := status result, f_markdown := Some (markdown result),
       f_metadata := Some (metadata result), f_error := Some (error result),
       f_updated_at := now\<rparr>"

definition updateCaseStudyFile ::
  "timestamp \<Rightarrow> string \<Rightarrow> MarkerResponse \<Rightarrow> db \<Rightarrow> (thrown + case_study_file) \<times> db" where
  "updateCaseStudyFile now requestId result d =
     (let upd = (\<lambda>f. if f_request_id f = requestId then set_from_result now result f else f);
          returning = map upd (filter (\<lambda>f. f_request_id f = requestId) (caseStudyFiles d));
          d' = d\<lparr>caseStudyFiles := map upd (caseStudyFiles d)\<rparr>
      in case returning of
           [] \<Rightarrow> (Inl (Error ''Case study file not found''), d')
         | f # _ \<Rightarrow> (Inr f, d'))"

definition image_path :: "string \<Rightarrow> uuid \<Rightarrow> string \<Rightarrow> string" where
  "image_path userId fileId filename =
     userId @ ''/case_studies/'' @ fileId @ ''/images/'' @ filename"

text \<open>
  The loop over \<^verbatim>\<open>Object.entries(result.images)\<close>. An upload that rejects or
  reports an error and an insert that rejects skip the entry (\<^verbatim>\<open>continue\<close>, or the
  \<^verbatim>\<open>catch\<close> inside the loop).
\<close>

fun image_loop :: "webhook_env \<Rightarrow> string \<Rightarrow> uuid \<Rightarrow> (string \<times> string) list \<Rightarrow> db \<Rightarrow> db" where
  "image_loop env userId fileId [] d = d"
| "image_loop env userId fileId ((filename, imageBase64) # rest) d =
     (let filePath = image_path userId fileId filename in
      case storage_upload env filePath imageBase64 of
        Uploaded \<Rightarrow>
          (let publicUrl = getPublicUrl env filePath in
           case insert_caseStudyImages env publicUrl of
             Resolves (i, t) \<Rightarrow>
               image_loop env userId fileId rest
                 (d\<lparr>caseStudyImages := caseStudyImages d @
                      [\<lparr>img_id = i, img_file_id = fileId, img_created_at = t,
                        img_updated_at = t, img_image_url = publicUrl\<rparr>]\<rparr>)
           | Rejects m \<Rightarrow> image_loop env userId fileId rest d)
      | UploadError \<Rightarrow> image_loop env userId fileId rest d
      | UploadRejects \<Rightarrow> image_loop env userId fileId rest d)"

definition processImages ::
  "webhook_env \<Rightarrow> case_study_file \<Rightarrow> MarkerResponse \<Rightarrow> db \<Rightarrow> (thrown + unit) \<times> db" where
  "processImages env caseStudyFile result d =
     (case images result of
        None \<Rightarrow> (Inr (), d)
      | Some [] \<Rightarrow> (Inr (), d)
      | Some (e # es) \<Rightarrow>
          (case select_caseStudies env of
             Rejects m \<Rightarrow> (Inl (Error m), d)
           | Resolves u \<Rightarrow>
               (case filter (\<lambda>c. cs_id c = f_case_study_id caseStudyFile) (caseStudies d) of
                  [] \<Rightarrow> (Inl (Error ''Case study not found''), d)
                | caseStudy # _ \<Rightarrow>
                    (Inr (), image_loop env (cs_user_id caseStudy) (f_id caseStudyFile) (e # es) d))))"

text \<open>The \<^verbatim>\<open>catch\<close> block of \<^verbatim>\<open>POST\<close>.\<close>

definition error_response :: "thrown \<Rightarrow> response" where
  "error_response e =
     (case e of
        Error errorMessage \<Rightarrow>
          \<lparr>http_status =
             (if includes_str errorMessage ''Invalid webhook secret'' then 401
              else if includes_str errorMessage ''Missing required fields'' then 400
              else 500),
           http_body = ErrorBody errorMessage\<rparr>
      | NonError \<Rightarrow> \<lparr>http_status = 500, http_body = ErrorBody ''Internal server error''\<rparr>)"

definition POST :: "webhook_env \<Rightarrow> request_body \<Rightarrow> db \<Rightarrow> response \<times> db" where
  "POST env request d =
     (case validateWebhook (MARKER_WEBHOOK_SECRET env) request of
        Inl e \<Rightarrow> (error_response e, d)
      | Inr (rid, url) \<Rightarrow>
          (case fetchMarkerResults (fetch env) url of
             Inl e \<Rightarrow> (error_response e, d)
           | Inr result \<Rightarrow>
               (case updateCaseStudyFile (new_Date env) rid result d of
                  (Inl e, d1) \<Rightarrow> (error_response e, d1)
                | (Inr caseStudyFile, d1) \<Rightarrow>
                    (case processImages env caseStudyFile result d1 of
                       (Inl e, d2) \<Rightarrow> (error_response e, d2)
                     | (Inr u, d2) \<Rightarrow>
                         (\<lparr>http_status = 200,
                           http_body = Message ''Webhook processed successfully''\<rparr>, d2)))))"

section \<open>File ingestion (src/actions/create-case-study.ts, downloadFileFromUrl, src/actions/users.ts)\<close>

type_synonym blob = string

record downloaded_file =
  file_blob :: blob
  file_type :: string
  file_name :: string

datatype form_value = FileValue blob string | StringValue string

record marker_request =
  req_url :: string
  req_method :: string
  req_headers :: "(string \<times> string) list"
  req_body :: "(string \<times> form_value) list"

text \<open>
  The calls of \<^verbatim>\<open>fetch\<close> an action makes, in order: a GET of a file URL, or the POST of
  a form to the extraction service. A function that calls \<^verbatim>\<open>fetch\<close> returns its result
  together with the calls it made.
\<close>

datatype call = FetchUrl string | FetchMarker marker_request

datatype download_response =
  DownloadRejects thrown
  | DownloadNotOk string
  | BlobRejects thrown
  | Downloaded blob "string option"

definition message_or_unknown :: "thrown \<Rightarrow> string" where
  "message_or_unknown e = (case e of Error m \<Rightarrow> m | NonError \<Rightarrow> ''Unknown error'')"

text \<open>\<^verbatim>\<open>url.split('/').pop() || 'file'\<close>\<close>

definition url_file_name :: "string \<Rightarrow> string" where
  "url_file_name url =
     (let seg = rev (takeWhile (\<lambda>c. c \<noteq> CHR ''/'') (rev url))
      in if seg = [] then ''file'' else seg)"

definition downloadFileFromUrl ::
  "(string \<Rightarrow> download_response) \<Rightarrow> string \<Rightarrow> (thrown + downloaded_file) \<times> call list" where
  "downloadFileFromUrl fetch_fn url =
     (case fetch_fn url of
        DownloadRejects e \<Rightarrow> Inl (Error (''Error downloading file: '' @ message_or_unknown e))
      | DownloadNotOk statusText \<Rightarrow>
          Inl (Error (''Error downloading file: '' @
                 ''Failed to download file from '' @ url @ '': '' @ statusText))
      | BlobRejects e \<Rightarrow>
          Inl (Error (''Error downloading file: '' @
                 ''Failed to convert response to blob: '' @ message_or_unknown e))
      | Downloaded b contentType \<Rightarrow>
          Inr \<lparr>file_blob = b,
               file_type = (case contentType of
                              None \<Rightarrow> ''application/octet-stream''
                            | Some ct \<Rightarrow> if ct = [] then ''application/octet-stream'' else ct),
               file_name = url_file_name url\<rparr>,
      [FetchUrl url])"

text \<open>
  Modelled from the spec: the declaration of \<^verbatim>\<open>MarkerApiResponse\<close>
  (\<^verbatim>\<open>@/types/marker\<close>) is not among the sources; the spec gives the response the fields
  \<^verbatim>\<open>request_id\<close>, \<^verbatim>\<open>success\<close> and an optional \<^verbatim>\<open>error\<close>. \<open>api_json\<close> is the whole
  response object, which the File row stores as metadata.
\<close>

record MarkerApiResponse =
  api_request_id :: string
  api_success :: bool
  api_error :: "string option"
  api_json :: json

datatype marker_response =
  MarkerRejects thrown
  | MarkerNotOk string
  | MarkerJsonRejects thrown
  | MarkerReplied MarkerApiResponse

text \<open>
  The request \<^verbatim>\<open>processFileWithMarker\<close> sends: the form in the order of its
  \<^verbatim>\<open>append\<close> calls, then the fetch options.
\<close>

definition marker_request_of :: "string option \<Rightarrow> downloaded_file \<Rightarrow> marker_request" where
  "marker_request_of api_key file =
     (let formData =
            [] @ [(''file'', FileValue (file_blob file) (file_name file))]
               @ [(''langs'', StringValue ''English'')]
               @ [(''force_ocr'', StringValue ''false'')]
               @ [(''paginate'', StringValue ''false'')]
               @ [(''output_format'', StringValue ''markdown'')]
               @ [(''use_llm'', StringValue ''false'')]
               @ [(''strip_existing_ocr'', StringValue ''false'')]
               @ [(''disable_image_extraction'', StringValue ''false'')]
      in \<lparr>req_url = ''https://www.datalab.to/api/v1/marker'',
           req_method = ''POST'',
           req_headers = [(''X-Api-Key'',
              case api_key of None \<Rightarrow> [] | Some k \<Rightarrow> k)],
           req_body = formData\<rparr>)"

definition processFileWithMarker ::
  "string option \<Rightarrow> (marker_request \<Rightarrow> marker_response) \<Rightarrow> downloaded_file
     \<Rightarrow> (thrown + MarkerApiResponse) \<times> call list" where
  "processFileWithMarker api_key fetch_fn file =
     (case fetch_fn (marker_request_of api_key file) of
        MarkerRejects e \<Rightarrow> Inl e
      | MarkerNotOk statusText \<Rightarrow> Inl (Error (''Marker API error: '' @ statusText))
      | MarkerJsonRejects e \<Rightarrow> Inl e
      | MarkerReplied result \<Rightarrow>
          if \<not> api_success result
          then Inl (Error (''Marker API error: '' @
                 (case api_error result of None \<Rightarrow> ''undefined'' | Some m \<Rightarrow> m)))
          else Inr result,
      [FetchMarker (marker_request_of api_key file)])"

text \<open>
  What one file task reads from outside, and what the whole action reads.
  \<open>insert_caseStudies\<close> is what the database does with the insert of the CaseStudy row
  when its foreign key is satisfied: it rejects the statement, or resolves with the rows
  it returns (none, or the new row with its uuid and timestamp).
\<close>

record task_env =
  download_fetch :: "string \<Rightarrow> download_response"
  marker_fetch :: "marker_request \<Rightarrow> marker_response"
  insert_caseStudyFiles :: "(uuid \<times> timestamp) io"

record create_env =
  MARKER_API_KEY :: "string option"
  insert_caseStudies :: "(uuid \<times> timestamp) option io"
  task_env :: "nat \<Rightarrow> task_env"

record create_input =
  title :: string
  client :: "string option"
  industry :: "string option"
  fileUrls :: "string list"

text \<open>
  \<^verbatim>\<open>INSERT INTO case_studies ... RETURNING *\<close>. \<^verbatim>\<open>case_studies.user_id\<close> references
  \<^verbatim>\<open>users.id\<close>: the statement is rejected when the user has no row in \<^verbatim>\<open>users\<close>. The
  result is the returned rows and the database.
\<close>

definition insert_into_caseStudies ::
  "(uuid \<times> timestamp) option io \<Rightarrow> string \<Rightarrow> create_input \<Rightarrow> db
     \<Rightarrow> (case_study list \<times> db) io" where
  "insert_into_caseStudies outcome userId caseStudy d =
     (if userId \<notin> set (map u_id (users d))
      then Rejects ''violates foreign key constraint case_studies_user_id_users_id_fk''
      else (case outcome of
              Rejects m \<Rightarrow> Rejects m
            | Resolves None \<Rightarrow> Resolves ([], d)
            | Resolves (Some (i, t)) \<Rightarrow>
                (let row = \<lparr>cs_id = i, cs_user_id = userId, cs_title = title caseStudy,
                            cs_description = None, cs_client = client caseStudy,
                            cs_industry = industry caseStudy, cs_created_at = t,
                            cs_updated_at = t\<rparr>
                 in Resolves ([row], d\<lparr>caseStudies := caseStudies d @ [row]\<rparr>))))"

text \<open>
  The body of one task of \<^verbatim>\<open>Promise.allSettled\<close>: its \<^verbatim>\<open>catch\<close> logs and swallows
  whatever the download, the submission or the insert throws. The result is the database,
  the lines written by \<^verbatim>\<open>console.error\<close> (the file URL and the thrown value) and the
  calls of \<^verbatim>\<open>fetch\<close> made.
\<close>

definition file_task ::
  "string option \<Rightarrow> task_env \<Rightarrow> case_study \<Rightarrow> string \<Rightarrow> db
     \<Rightarrow> db \<times> (string \<times> thrown) list \<times> call list" where
  "file_task api_key tenv newCaseStudy fileUrl d =
     (case downloadFileFromUrl (download_fetch tenv) fileUrl of
        (Inl e, calls1) \<Rightarrow> (d, [(fileUrl, e)], calls1)
      | (Inr file, calls1) \<Rightarrow>
          (case processFileWithMarker api_key (marker_fetch tenv) file of
             (Inl e, calls2) \<Rightarrow> (d, [(fileUrl, e)], calls1 @ calls2)
           | (Inr result, calls2) \<Rightarrow>
               (case insert_caseStudyFiles tenv of
                  Rejects m \<Rightarrow> (d, [(fileUrl, Error m)], calls1 @ calls2)
                | Resolves (i, t) \<Rightarrow>
                    (d\<lparr>caseStudyFiles := caseStudyFiles d @
                         [\<lparr>f_id = i, f_case_study_id = cs_id newCaseStudy,
                           f_request_id = api_request_id result, f_file_url = fileUrl,
                           f_markdown = None, f_metadata = Some (api_json result),
                           f_created_at = t, f_updated_at = t,
                           f_status = ''processing'', f_error = None\<rparr>]\<rparr>,
                     [], calls1 @ calls2))))"

text \<open>
  The tasks are started together and joined; each runs its statements on the database as
  it finds it. Here they run in the order of \<^verbatim>\<open>fileUrls\<close>, task \<open>i\<close> with its own
  environment.
\<close>

fun file_tasks ::
  "string option \<Rightarrow> (nat \<Rightarrow> task_env) \<Rightarrow> case_study \<Rightarrow> nat \<Rightarrow> string list \<Rightarrow> db
     \<Rightarrow> db \<times> (string \<times> thrown) list \<times> call list" where
  "file_tasks api_key tenv newCaseStudy i [] d = (d, [], [])"
| "file_tasks api_key tenv newCaseStudy i (fileUrl # rest) d =
     (let (d1, log1, calls1) = file_task api_key (tenv i) newCaseStudy fileUrl d;
          (d2, log2, calls2) = file_tasks api_key tenv newCaseStudy (Suc i) rest d1
      in (d2, log1 @ log2, calls1 @ calls2))"

definition createCaseStudy ::
  "string option \<Rightarrow> create_env \<Rightarrow> create_input \<Rightarrow> db
     \<Rightarrow> (thrown + case_study) \<times> db \<times> (string \<times> thrown) list \<times> call list" where
  "createCaseStudy auth env caseStudy d =
     (case auth of
        None \<Rightarrow> (Inl (Error ''User not authenticated''), d, [], [])
      | Some userId \<Rightarrow>
          if userId = [] then (Inl (Error ''User not authenticated''), d, [], [])
          else
            (case insert_into_caseStudies (insert_caseStudies env) userId caseStudy d of
               Rejects m \<Rightarrow> (Inl (Error m), d, [], [])
             | Resolves (returning, d1) \<Rightarrow>
                 (case returning of
                    [] \<Rightarrow> (Inl (Error
                      ''Failed to create case study: No record returned from database''),
                           d1, [], [])
                  | newCaseStudy # _ \<Rightarrow>
                      (let (d2, log, calls) =
                             file_tasks (MARKER_API_KEY env) (task_env env) newCaseStudy 0
                               (fileUrls caseStudy) d1
                       in (Inr newCaseStudy, d2, log, calls)))))"


section \<open>Server actions on case studies (src/actions/case-study.ts)\<close>

definition getAllCaseStudies :: "string option \<Rightarrow> db \<Rightarrow> thrown + case_study list" where
  "getAllCaseStudies auth d =
     (case auth of
        None \<Rightarrow> Inl (Error ''User not authenticated'')
      | Some userId \<Rightarrow>
          if userId = [] then Inl (Error ''User not authenticated'')
          else Inr (rev (sort_key cs_created_at
                      (filter (\<lambda>c. cs_user_id c = userId) (caseStudies d)))))"

record file_with_images =
  fw_file :: case_study_file
  fw_images :: "case_study_image list"

record case_study_with_files =
  cw_caseStudy :: case_study
  cw_files :: "file_with_images list"
  cw_summaries :: "case_study_summary list"

text \<open>
  One turn of the loop that fills \<^verbatim>\<open>imageMap\<close>: create the bucket if the key is new,
  then push.
\<close>

definition imageMap_push ::
  "case_study_image \<Rightarrow> (uuid \<rightharpoonup> case_study_image list) \<Rightarrow> (uuid \<rightharpoonup> case_study_image list)" where
  "imageMap_push img m =
     (let m1 = (if m (img_file_id img) = None then m(img_file_id img \<mapsto> []) else m)
      in case m1 (img_file_id img) of
           None \<Rightarrow> m1
         | Some bucket \<Rightarrow> m1(img_file_id img \<mapsto> bucket @ [img]))"

definition getCaseStudyById :: "uuid \<Rightarrow> db \<Rightarrow> thrown + case_study_with_files" where
  "getCaseStudyById ident d =
     (case filter (\<lambda>c. cs_id c = ident) (caseStudies d) of
        [] \<Rightarrow> Inl (Error ''Case study not found'')
      | caseStudy # _ \<Rightarrow>
          (let files = filter (\<lambda>f. f_case_study_id f = ident) (caseStudyFiles d);
               summaries = filter (\<lambda>s. sum_case_study_id s = ident) (caseStudySummaries d)
           in if length files = 0
              then Inr \<lparr>cw_caseStudy = caseStudy, cw_files = [], cw_summaries = []\<rparr>
              else
                (let fileIds = map f_id files;
                     imgs = filter (\<lambda>i. img_file_id i \<in> set fileIds) (caseStudyImages d);
                     imageMap = fold imageMap_push imgs Map.empty;
                     filesWithImages =
                       map (\<lambda>file. \<lparr>fw_file = file,
                                     fw_images = (case imageMap (f_id file) of
                                                    None \<Rightarrow> [] | Some bucket \<Rightarrow> bucket)\<rparr>) files
                 in Inr \<lparr>cw_caseStudy = caseStudy, cw_files = filesWithImages,
                         cw_summaries = summaries\<rparr>)))"

record CaseStudyData =
  data_title :: string
  challenge :: string
  approach :: string
  solution :: string
  outcomes :: string
  summary :: string
  key_points :: "string list"

definition saveCaseStudy ::
  "string option \<Rightarrow> timestamp \<Rightarrow> uuid \<Rightarrow> CaseStudyData \<Rightarrow> db \<Rightarrow> (thrown + bool) \<times> db" where
  "saveCaseStudy auth now ident content d =
     (if falsy auth then (Inl (Error ''User not authenticated''), d)
      else (Inr True,
            d\<lparr>caseStudies :=
                map (\<lambda>c. if cs_id c = ident
                          then c\<lparr>cs_description := Some (summary content), cs_updated_at := now\<rparr>
                          else c) (caseStudies d)\<rparr>))"

text \<open>
  \<^verbatim>\<open>DELETE FROM case_studies WHERE id = $1\<close> under the foreign keys of the migrations:
  \<^verbatim>\<open>case_study_files.case_study_id\<close> and \<^verbatim>\<open>case_study_summaries.case_study_id\<close> are
  \<^verbatim>\<open>ON DELETE cascade\<close>, so the rows of a deleted case study go with it;
  \<^verbatim>\<open>case_study_images.file_id\<close> is \<^verbatim>\<open>ON DELETE no action\<close>
  (\<^verbatim>\<open>.references(() => caseStudyFiles.id)\<close> with no \<^verbatim>\<open>onDelete\<close>), so the statement is
  rejected, and nothing is deleted, when an Image row references a File row it would delete.
\<close>

definition delete_caseStudies :: "uuid \<Rightarrow> db \<Rightarrow> db io" where
  "delete_caseStudies ident d =
     (let gone = map cs_id (filter (\<lambda>c. cs_id c = ident) (caseStudies d));
          gone_files = filter (\<lambda>f. f_case_study_id f \<in> set gone) (caseStudyFiles d)
      in if list_ex (\<lambda>i. img_file_id i \<in> set (map f_id gone_files)) (caseStudyImages d)
         then Rejects ''violates foreign key constraint case_study_images_file_id_case_study_files_id_fk''
         else Resolves
           (d\<lparr>caseStudies := filter (\<lambda>c. cs_id c \<noteq> ident) (caseStudies d),
              caseStudyFiles := filter (\<lambda>f. f_case_study_id f \<notin> set gone) (caseStudyFiles d),
              caseStudySummaries :=
                filter (\<lambda>s. sum_case_study_id s \<notin> set gone) (caseStudySummaries d)\<rparr>))"

definition deleteCaseStudy :: "string option \<Rightarrow> uuid \<Rightarrow> db \<Rightarrow> (thrown + bool) \<times> db" where
  "deleteCaseStudy auth ident d =
     (if falsy auth then (Inl (Error ''User not authenticated''), d)
      else (case delete_caseStudies ident d of
              Rejects m \<Rightarrow> (Inl (Error ''Failed to delete case study''), d)
            | Resolves d' \<Rightarrow> (Inr True, d')))"

definition getCaseStudySummary :: "string option \<Rightarrow> uuid \<Rightarrow> db \<Rightarrow> thrown + case_study_summary" where
  "getCaseStudySummary auth ident d =
     (if falsy auth then Inl (Error ''User not authenticated'')
      else (case filter (\<lambda>s. sum_case_study_id s = ident) (caseStudySummaries d) of
              [] \<Rightarrow> Inl (Error ''Case study summary not found'')
            | s # _ \<Rightarrow> Inr s))"

section \<open>Summarization (createOnePager)\<close>

record onepager_env =
  GEMINI_API_KEY :: "string option"
  generateContent :: "string \<Rightarrow> string option io"
  insert_caseStudySummaries :: "uuid \<times> timestamp"

definition geminiTextCompletion :: "onepager_env \<Rightarrow> string \<Rightarrow> thrown + string" where
  "geminiTextCompletion env fileContent =
     (if falsy (GEMINI_API_KEY env)
      then Inl (Error ''GEMINI_API_KEY is not set in environment variables.'')
      else (case generateContent env fileContent of
              Rejects m \<Rightarrow> Inl (Error m)
            | Resolves None \<Rightarrow> Inl (Error ''[Gemini] No text response received from Gemini'')
            | Resolves (Some text) \<Rightarrow>
                if text = [] then Inl (Error ''[Gemini] No text response received from Gemini'')
                else Inr text))"

definition createOnePager ::
  "string option \<Rightarrow> onepager_env \<Rightarrow> string \<Rightarrow> uuid \<Rightarrow> db \<Rightarrow> (thrown + case_study_summary) \<times> db" where
  "createOnePager auth env fileContent caseStudyId d =
     (if falsy auth then (Inl (Error ''User not authenticated''), d)
      else (case geminiTextCompletion env fileContent of
              Inl e \<Rightarrow> (Inl e, d)
            | Inr response \<Rightarrow>
                (let (i, t) = insert_caseStudySummaries env;
                     row = \<lparr>sum_id = i, sum_case_study_id = caseStudyId, sum_summary = response,
                            sum_created_at = t, sum_updated_at = t\<rparr>
                 in (Inr row, d\<lparr>caseStudySummaries := caseStudySummaries d @ [row]\<rparr>))))"

section \<open>The system as a sequence of operations\<close>

text \<open>Every operation of the sources that writes to the database, with what it reads.\<close>

datatype operation =
  CreateUserProfile timestamp string string string
  | CreateCaseStudy "string option" create_env create_input
  | MarkerWebhook webhook_env request_body
  | SaveCaseStudy "string option" timestamp uuid CaseStudyData
  | DeleteCaseStudy "string option" uuid
  | CreateOnePager "string option" onepager_env string uuid



section \<open>Derived notions and sample data\<close>


definition user_a :: user where
  "user_a = \<lparr>u_id = ''user_1'', u_name = ''Ada'', u_email = ''ada@example.org'',
             u_created_at = 0, u_updated_at = 0\<rparr>"

definition cs_a :: case_study where
  "cs_a = \<lparr>cs_id = ''cs-a'', cs_user_id = ''user_1'', cs_title = ''Alpha'',
           cs_description = None, cs_client = None, cs_industry = None,
           cs_created_at = 1, cs_updated_at = 1\<rparr>"

definition file_a :: case_study_file where
  "file_a = \<lparr>f_id = ''file-a'', f_case_study_id = ''cs-a'', f_request_id = ''req-1'',
             f_file_url = ''https://files.example/a.pdf'', f_markdown = None,
             f_metadata = Some ''{}'', f_created_at = 2, f_updated_at = 2,
             f_status = ''processing'', f_error = None\<rparr>"

definition db_a :: db where
  "db_a = \<lparr>users = [user_a], caseStudies = [cs_a], caseStudyFiles = [file_a], caseStudyImages = [],
           caseStudySummaries = []\<rparr>"

definition result_a :: MarkerResponse where
  "result_a = \<lparr>output_format = ''markdown'', markdown = ''# Alpha'', status = ''complete'',
               success = True, images = Some [(''a.jpg'', ''QQ==''), (''b.jpg'', ''Qg=='')],
               metadata = ''{}'', error = [], page_count = 1\<rparr>"

definition env_a :: webhook_env where
  "env_a = \<lparr>MARKER_WEBHOOK_SECRET = Some ''s3cret'',
            fetch = (\<lambda>url. Fetched result_a),
            new_Date = 5,
            select_caseStudies = Resolves (),
            storage_upload = (\<lambda>filePath bytes. Uploaded),
            getPublicUrl = (\<lambda>filePath. ''https://cdn.example/'' @ filePath),
            insert_caseStudyImages = (\<lambda>url. Resolves (''img:'' @ url, 6))\<rparr>"

definition request_a :: request_body where
  "request_a = Body (Some ''req-1'') (Some ''https://check.example/req-1'') (Some ''s3cret'')"


definition env_lookup_fails :: webhook_env where
  "env_lookup_fails = env_a\<lparr>select_caseStudies := Rejects ''Connection terminated unexpectedly''\<rparr>"

definition env_upload_refused :: webhook_env where
  "env_upload_refused = env_a\<lparr>storage_upload := (\<lambda>filePath bytes. UploadError), new_Date := 9\<rparr>"

definition env_first_upload_fails :: webhook_env where
  "env_first_upload_fails =
     env_a\<lparr>storage_upload :=
       (\<lambda>filePath bytes. if filePath = ''user_1/case_studies/file-a/images/a.jpg''
                           then UploadError else Uploaded)\<rparr>"

definition env_replay :: webhook_env where
  "env_replay =
     env_a\<lparr>new_Date := 9,
           insert_caseStudyImages := (\<lambda>url. Resolves (''img2:'' @ url, 10))\<rparr>"

definition env_error_text :: webhook_env where
  "env_error_text =
     env_a\<lparr>fetch := (\<lambda>url. Fetched (result_a\<lparr>success := False,
                                               error := ''Invalid webhook secret''\<rparr>))\<rparr>"

definition env_insert_rejected :: webhook_env where
  "env_insert_rejected =
     env_first_upload_fails\<lparr>insert_caseStudyImages := (\<lambda>url. Rejects ''deadlock detected'')\<rparr>"

definition env_fetch_down :: webhook_env where
  "env_fetch_down = env_a\<lparr>fetch := (\<lambda>url. NotOk ''Bad Gateway'')\<rparr>"

definition db_orphan :: db where
  "db_orphan = db_a\<lparr>caseStudies := []\<rparr>"

definition env_second_upload_fails :: webhook_env where
  "env_second_upload_fails =
     env_a\<lparr>storage_upload :=
       (\<lambda>filePath bytes. if filePath = ''user_1/case_studies/file-a/images/b.jpg''
                           then UploadRejects else Uploaded)\<rparr>"

text \<open>
  What claim C2 says of one file task, read off the answers of the network and of the
  database to that task alone: the submission that follows a successful download, and the
  File row that follows an accepted submission and an accepted insert.
\<close>

definition expected_submission :: "string option \<Rightarrow> task_env \<Rightarrow> string \<Rightarrow> marker_request option" where
  "expected_submission api_key tenv fileUrl =
     (case download_fetch tenv fileUrl of
        Downloaded b contentType \<Rightarrow>
          Some (marker_request_of api_key
                  \<lparr>file_blob = b,
                   file_type = (case contentType of
                                  None \<Rightarrow> ''application/octet-stream''
                                | Some ct \<Rightarrow> if ct = [] then ''application/octet-stream'' else ct),
                   file_name = url_file_name fileUrl\<rparr>)
      | _ \<Rightarrow> None)"

definition expected_row ::
  "string option \<Rightarrow> task_env \<Rightarrow> uuid \<Rightarrow> string \<Rightarrow> case_study_file option" where
  "expected_row api_key tenv caseStudyId fileUrl =
     (case expected_submission api_key tenv fileUrl of
        None \<Rightarrow> None
      | Some request \<Rightarrow>
          (case marker_fetch tenv request of
             MarkerReplied result \<Rightarrow>
               if api_success result
               then (case insert_caseStudyFiles tenv of
                       Resolves (i, t) \<Rightarrow>
                         Some \<lparr>f_id = i, f_case_study_id = caseStudyId,
                               f_request_id = api_request_id result, f_file_url = fileUrl,
                               f_markdown = None, f_metadata = Some (api_json result),
                               f_created_at = t, f_updated_at = t,
                               f_status = ''processing'', f_error = None\<rparr>
                     | Rejects m \<Rightarrow> None)
               else None
           | _ \<Rightarrow> None))"

definition expected_calls :: "string option \<Rightarrow> task_env \<Rightarrow> string \<Rightarrow> call list" where
  "expected_calls api_key tenv fileUrl =
     FetchUrl fileUrl #
     (case expected_submission api_key tenv fileUrl of
        None \<Rightarrow> []
      | Some request \<Rightarrow> [FetchMarker request])"


text \<open>Sample data for file ingestion: the first URL cannot be downloaded, the second is accepted.\<close>

definition marker_ok :: MarkerApiResponse where
  "marker_ok = \<lparr>api_request_id = ''req-2'', api_success = True, api_error = None,
                api_json = ''{}''\<rparr>"

definition marker_refused :: MarkerApiResponse where
  "marker_refused = \<lparr>api_request_id = ''req-3'', api_success = False,
                     api_error = Some ''unsupported file'', api_json = ''{}''\<rparr>"

definition tenv_down :: task_env where
  "tenv_down = \<lparr>download_fetch = (\<lambda>url. DownloadNotOk ''Not Found''),
                marker_fetch = (\<lambda>req. MarkerReplied marker_ok),
                insert_caseStudyFiles = Resolves (''file-x'', 7)\<rparr>"

definition tenv_ok :: task_env where
  "tenv_ok = \<lparr>download_fetch = (\<lambda>url. Downloaded ''%PDF'' (Some ''application/pdf'')),
              marker_fetch = (\<lambda>req. MarkerReplied marker_ok),
              insert_caseStudyFiles = Resolves (''file-y'', 8)\<rparr>"

definition create_env_a :: create_env where
  "create_env_a = \<lparr>MARKER_API_KEY = Some ''key'', insert_caseStudies = Resolves (Some (''cs-n'', 4)),
                   task_env = (\<lambda>i. if i = 0 then tenv_down else tenv_ok)\<rparr>"

definition input_a :: create_input where
  "input_a = \<lparr>title = ''Beta'', client = None, industry = Some ''Retail'',
              fileUrls = [''https://files.example/x.pdf'', ''https://files.example/y.pdf'']\<rparr>"

definition file_pdf :: downloaded_file where
  "file_pdf = \<lparr>file_blob = ''%PDF'', file_type = ''application/pdf'', file_name = ''y.pdf''\<rparr>"

definition create_env_rejected :: create_env where
  "create_env_rejected = create_env_a\<lparr>insert_caseStudies := Rejects ''connection refused''\<rparr>"

definition create_env_no_row :: create_env where
  "create_env_no_row = create_env_a\<lparr>insert_caseStudies := Resolves None\<rparr>"

text \<open>Notions used to state the properties of the server actions.\<close>

definition files_of :: "uuid \<Rightarrow> db \<Rightarrow> case_study_file list" where
  "files_of ident d = filter (\<lambda>f. f_case_study_id f = ident) (caseStudyFiles d)"

definition summaries_of :: "uuid \<Rightarrow> db \<Rightarrow> case_study_summary list" where
  "summaries_of ident d = filter (\<lambda>s. sum_case_study_id s = ident) (caseStudySummaries d)"

text \<open>Some Image row references a File row of the case study.\<close>

definition image_references :: "uuid \<Rightarrow> db \<Rightarrow> bool" where
  "image_references ident d =
     list_ex (\<lambda>i. img_file_id i \<in> set (map f_id (files_of ident d))) (caseStudyImages d)"

text \<open>Every Image row references an existing File row (no orphan).\<close>

definition images_have_files :: "db \<Rightarrow> bool" where
  "images_have_files d =
     list_all (\<lambda>i. img_file_id i \<in> set (map f_id (caseStudyFiles d))) (caseStudyImages d)"

text \<open>
  What claim C10 calls the full case study: the CaseStudy row with all of its File rows,
  each with the Image rows that reference it, and all of its Summary rows.
\<close>

definition full_case_study :: "case_study \<Rightarrow> db \<Rightarrow> case_study_with_files" where
  "full_case_study caseStudy d =
     \<lparr>cw_caseStudy = caseStudy,
      cw_files = map (\<lambda>file. \<lparr>fw_file = file,
                                fw_images = filter (\<lambda>i. img_file_id i = f_id file)
                                              (caseStudyImages d)\<rparr>)
                   (files_of (cs_id caseStudy) d),
      cw_summaries = summaries_of (cs_id caseStudy) d\<rparr>"





text \<open>Sample data for the server actions.\<close>

definition img_a :: case_study_image where
  "img_a = \<lparr>img_id = ''img-a'', img_file_id = ''file-a'', img_created_at = 6,
            img_updated_at = 6,
            img_image_url = ''https://cdn.example/user_1/case_studies/file-a/images/a.jpg''\<rparr>"

definition sum_a :: case_study_summary where
  "sum_a = \<lparr>sum_id = ''sum-a'', sum_case_study_id = ''cs-a'', sum_summary = ''# Summary'',
            sum_created_at = 7, sum_updated_at = 7\<rparr>"

definition db_with_image :: db where
  "db_with_image = \<lparr>users = [user_a], caseStudies = [cs_a], caseStudyFiles = [file_a],
                    caseStudyImages = [img_a], caseStudySummaries = [sum_a]\<rparr>"

definition db_without_image :: db where
  "db_without_image = \<lparr>users = [user_a], caseStudies = [cs_a], caseStudyFiles = [file_a],
                       caseStudyImages = [], caseStudySummaries = [sum_a]\<rparr>"

definition db_no_files :: db where
  "db_no_files = \<lparr>users = [user_a], caseStudies = [cs_a], caseStudyFiles = [],
                  caseStudyImages = [], caseStudySummaries = [sum_a]\<rparr>"

definition db_complete :: db where
  "db_complete = \<lparr>users = [user_a], caseStudies = [cs_a],
                  caseStudyFiles = [file_a\<lparr>f_status := ''complete''\<rparr>],
                  caseStudyImages = [], caseStudySummaries = []\<rparr>"

definition env_still_processing :: webhook_env where
  "env_still_processing =
     env_a\<lparr>fetch := (\<lambda>url. Fetched (result_a\<lparr>status := ''processing'', images := None\<rparr>))\<rparr>"

definition env_unsuccessful :: webhook_env where
  "env_unsuccessful =
     env_a\<lparr>fetch := (\<lambda>url. Fetched (result_a\<lparr>status := ''processing'', success := False,
                                               error := ''still running''\<rparr>))\<rparr>"

definition ops_a :: "operation list" where
  "ops_a = [MarkerWebhook env_replay request_a,
            MarkerWebhook env_still_processing
              (Body (Some ''req-1'') (Some ''https://check.example/req-1'') (Some ''guess'')),
            MarkerWebhook env_unsuccessful request_a,
            CreateCaseStudy (Some ''user_1'') create_env_a input_a,
            DeleteCaseStudy None ''cs-a'']"

section \<open>Properties of the webhook handler\<close>

lemma startsWith_self: "startsWith t t"
  by (induction t) auto

lemma includes_self: "includes_str s s"
  by (cases s) (auto simp: startsWith_self)







lemmas sample_defs = env_a_def request_a_def db_a_def file_a_def cs_a_def result_a_def
  env_lookup_fails_def env_upload_refused_def env_first_upload_fails_def env_error_text_def
  env_replay_def user_a_def env_insert_rejected_def env_fetch_down_def db_orphan_def
  env_second_upload_fails_def

lemmas POST_eval = POST_def validateWebhook_def fetchMarkerResults_def updateCaseStudyFile_def
  set_from_result_def processImages_def image_path_def error_response_def Let_def

lemma error_response_not_200: "http_status (error_response e) \<noteq> 200"
  by (cases e) (simp_all add: error_response_def)

lemma error_response_secret:
  "error_response (Error ''Invalid webhook secret'') =
     \<lparr>http_status = 401, http_body = ErrorBody ''Invalid webhook secret''\<rparr>"
  by (simp add: error_response_def includes_self)

text \<open>
  Claim C1, as amended. A POST whose body can be read and carries no \<^verbatim>\<open>webhook_secret\<close>
  (absent or empty), or one that differs from the configured secret, is answered with
  status 401 and the database is returned as it was: no File row and no Image row is
  written. A POST whose body cannot be read (it is not JSON, or it is \<^verbatim>\<open>null\<close>) carries
  no secret either: it is answered from the \<^verbatim>\<open>catch\<close> block with the message of the
  thrown error, which is status 500 unless the message contains one of the two phrases,
  and the database is returned as it was.
\<close>

theorem POST_secret_mismatch_401:
  "(falsy secret \<or> secret \<noteq> MARKER_WEBHOOK_SECRET env \<longrightarrow>
      POST env (Body rid url secret) d =
        (\<lparr>http_status = 401, http_body = ErrorBody ''Invalid webhook secret''\<rparr>, d)) \<and>
   POST env (Unreadable m) d = (error_response (Error m), d) \<and>
   (\<not> includes_str m ''Invalid webhook secret'' \<and> \<not> includes_str m ''Missing required fields''
      \<longrightarrow> error_response (Error m) = \<lparr>http_status = 500, http_body = ErrorBody m\<rparr>)"
  by (auto simp: POST_def validateWebhook_def error_response_secret error_response_def)

text \<open>
  Claim C1 at concrete requests: a wrong secret, and the message of a body that is not
  JSON, against the sample database.
\<close>

theorem POST_secret_mismatch_401_witness:
  "(falsy (Some ''guess'') \<or> Some ''guess'' \<noteq> MARKER_WEBHOOK_SECRET env_a) \<and>
   POST env_a (Body (Some ''req-1'') (Some ''https://check.example/req-1'') (Some ''guess'')) db_a =
     (\<lparr>http_status = 401, http_body = ErrorBody ''Invalid webhook secret''\<rparr>, db_a) \<and>
   \<not> includes_str ''Unexpected token < in JSON at position 0'' ''Invalid webhook secret'' \<and>
   \<not> includes_str ''Unexpected token < in JSON at position 0'' ''Missing required fields'' \<and>
   error_response (Error ''Unexpected token < in JSON at position 0'') =
     \<lparr>http_status = 500, http_body = ErrorBody ''Unexpected token < in JSON at position 0''\<rparr>"
proof -
  have h: "falsy (Some ''guess'') \<or> Some ''guess'' \<noteq> MARKER_WEBHOOK_SECRET env_a"
    by (simp add: env_a_def)
  have n: "\<not> includes_str ''Unexpected token < in JSON at position 0'' ''Invalid webhook secret''"
    "\<not> includes_str ''Unexpected token < in JSON at position 0'' ''Missing required fields''"
    by simp_all
  from POST_secret_mismatch_401 [of "Some ''guess''" env_a "Some ''req-1''"
      "Some ''https://check.example/req-1''" db_a "''Unexpected token < in JSON at position 0''"]
    h n
  show ?thesis by blast
qed

text \<open>
  Claim C1 as stated fails: the request has an empty body, so no \<^verbatim>\<open>webhook_secret\<close>.
  \<^verbatim>\<open>request.json()\<close> rejects before the secret is looked at, and the answer is 500, not
  401. The database is as it was.
\<close>

theorem POST_unreadable_body_500:
  "POST env_a (Unreadable ''Unexpected end of JSON input'') db_a =
     (\<lparr>http_status = 500, http_body = ErrorBody ''Unexpected end of JSON input''\<rparr>, db_a)"
  by (simp add: POST_def validateWebhook_def error_response_def)

text \<open>
  The response contract of the handler, step by step: 400 for a valid secret with a
  missing field; 200 or the answer of the \<^verbatim>\<open>catch\<close> block; and the \<^verbatim>\<open>catch\<close> block
  answers 500 for every thrown value whose message contains neither of the two phrases.
\<close>

lemma POST_missing_fields_400:
  assumes "\<not> (falsy secret \<or> secret \<noteq> MARKER_WEBHOOK_SECRET env)"
    and "falsy rid \<or> falsy url"
  shows "POST env (Body rid url secret) d =
           (\<lparr>http_status = 400, http_body = ErrorBody ''Missing required fields''\<rparr>, d)"
proof -
  have "includes_str ''Missing required fields'' ''Missing required fields''"
    by (rule includes_self)
  moreover have "\<not> includes_str ''Missing required fields'' ''Invalid webhook secret''"
    by simp
  ultimately have "error_response (Error ''Missing required fields'') =
      \<lparr>http_status = 400, http_body = ErrorBody ''Missing required fields''\<rparr>"
    by (simp only: error_response_def thrown.case if_False if_True)
  with assms show ?thesis
    by (cases rid; cases url) (auto simp: POST_def validateWebhook_def)
qed

lemma POST_answers:
  "fst (POST env request d) =
     \<lparr>http_status = 200, http_body = Message ''Webhook processed successfully''\<rparr> \<or>
   (\<exists>e. fst (POST env request d) = error_response e)"
  by (auto simp: POST_def split: sum.splits prod.splits)

lemma error_response_500:
  assumes "e = NonError \<or>
           (\<exists>m. e = Error m \<and> \<not> includes_str m ''Invalid webhook secret'' \<and>
                \<not> includes_str m ''Missing required fields'')"
  shows "http_status (error_response e) = 500 \<and> (\<exists>m. http_body (error_response e) = ErrorBody m)"
  using assms by (auto simp: error_response_def)











text \<open>
  Claim C8 at the failing input: the secret is valid and both fields are present, the
  fetched result is unsuccessful and its error text is \<^verbatim>\<open>Invalid webhook secret\<close>; the
  \<^verbatim>\<open>catch\<close> block classifies by substring and answers 401, not 500.
\<close>

theorem POST_error_text_collision:
  "validateWebhook (MARKER_WEBHOOK_SECRET env_error_text) request_a =
     Inr (''req-1'', ''https://check.example/req-1'') \<and>
   POST env_error_text request_a db_a =
     (\<lparr>http_status = 401, http_body = ErrorBody ''Invalid webhook secret''\<rparr>, db_a)"
  by (simp add: POST_eval sample_defs)

lemma filter_ConsD: "filter P xs = y # ys \<Longrightarrow> P y"
proof -
  assume a: "filter P xs = y # ys"
  have "y \<in> set (filter P xs)" by (simp add: a)
  then show "P y" by simp
qed













section \<open>Properties of file ingestion\<close>

lemma file_task_eq:
  "file_task api_key tenv cs url d =
     (d\<lparr>caseStudyFiles := caseStudyFiles d @
          (case expected_row api_key tenv (cs_id cs) url of None \<Rightarrow> [] | Some r \<Rightarrow> [r])\<rparr>,
      fst (snd (file_task api_key tenv cs url d)),
      expected_calls api_key tenv url)"
  by (simp add: file_task_def expected_row_def expected_submission_def expected_calls_def
      downloadFileFromUrl_def processFileWithMarker_def
      split: download_response.splits marker_response.splits io.splits prod.splits)


lemma file_tasks_db:
  "fst (file_tasks api_key tenv cs i urls d) =
     d\<lparr>caseStudyFiles := caseStudyFiles d @
          concat (map (\<lambda>(j, u). case expected_row api_key (tenv j) (cs_id cs) u of
                                   None \<Rightarrow> [] | Some r \<Rightarrow> [r]) (enumerate i urls))\<rparr>"
proof (induction urls arbitrary: i d)
  case Nil
  then show ?case by simp
next
  case (Cons u urls)
  obtain d1 l1 c1 where t: "file_task api_key (tenv i) cs u d = (d1, l1, c1)"
    by (cases "file_task api_key (tenv i) cs u d") auto
  have d1: "d1 = d\<lparr>caseStudyFiles := caseStudyFiles d @
               (case expected_row api_key (tenv i) (cs_id cs) u of None \<Rightarrow> [] | Some r \<Rightarrow> [r])\<rparr>"
    using file_task_eq [of api_key "tenv i" cs u d] t by simp
  obtain d2 l2 c2 where r: "file_tasks api_key tenv cs (Suc i) urls d1 = (d2, l2, c2)"
    by (cases "file_tasks api_key tenv cs (Suc i) urls d1") auto
  from Cons.IH [of "Suc i" d1] r have d2: "d2 =
     d1\<lparr>caseStudyFiles := caseStudyFiles d1 @
          concat (map (\<lambda>(j, u). case expected_row api_key (tenv j) (cs_id cs) u of
                                   None \<Rightarrow> [] | Some r \<Rightarrow> [r]) (enumerate (Suc i) urls))\<rparr>"
    by simp
  have "fst (file_tasks api_key tenv cs i (u # urls) d) = d2"
    by (simp add: t r)
  then show ?case
    by (simp add: d2 d1)
qed








lemmas ingest_defs = create_env_a_def input_a_def tenv_down_def tenv_ok_def marker_ok_def
  marker_refused_def file_pdf_def create_env_rejected_def create_env_no_row_def




text \<open>
  Claim C9. An extraction submission makes one call: the POST of a form with the file blob
  under its name followed by exactly the seven fixed options. The outcome depends on the
  network only through the answer to that request; the submission throws when the response
  is not ok and when its success flag is false, and returns the response otherwise.
\<close>

theorem processFileWithMarker_form:
  "req_body (marker_request_of api_key file) =
     [(''file'', FileValue (file_blob file) (file_name file)),
      (''langs'', StringValue ''English''),
      (''force_ocr'', StringValue ''false''),
      (''paginate'', StringValue ''false''),
      (''output_format'', StringValue ''markdown''),
      (''use_llm'', StringValue ''false''),
      (''strip_existing_ocr'', StringValue ''false''),
      (''disable_image_extraction'', StringValue ''false'')] \<and>
   snd (processFileWithMarker api_key fetch_fn file) =
     [FetchMarker (marker_request_of api_key file)] \<and>
   (g (marker_request_of api_key file) = fetch_fn (marker_request_of api_key file) \<longrightarrow>
      processFileWithMarker api_key g file = processFileWithMarker api_key fetch_fn file) \<and>
   (fetch_fn (marker_request_of api_key file) = MarkerNotOk statusText \<longrightarrow>
      processFileWithMarker api_key fetch_fn file =
        (Inl (Error (''Marker API error: '' @ statusText)),
         [FetchMarker (marker_request_of api_key file)])) \<and>
   (fetch_fn (marker_request_of api_key file) = MarkerReplied result \<and> \<not> api_success result \<longrightarrow>
      processFileWithMarker api_key fetch_fn file =
        (Inl (Error (''Marker API error: '' @
                (case api_error result of None \<Rightarrow> ''undefined'' | Some m \<Rightarrow> m))),
         [FetchMarker (marker_request_of api_key file)])) \<and>
   (fetch_fn (marker_request_of api_key file) = MarkerReplied result \<and> api_success result \<longrightarrow>
      processFileWithMarker api_key fetch_fn file =
        (Inr result, [FetchMarker (marker_request_of api_key file)]))"
  by (simp add: processFileWithMarker_def marker_request_of_def)

text \<open>
  Claim C9 at concrete answers of the extraction service: a 502, a refusal, an acceptance,
  and a network that differs from the last one at other requests only.
\<close>

theorem processFileWithMarker_form_witness:
  "(\<lambda>req. MarkerNotOk ''Bad Gateway'') (marker_request_of (Some ''key'') file_pdf) =
     MarkerNotOk ''Bad Gateway'' \<and>
   processFileWithMarker (Some ''key'') (\<lambda>req. MarkerNotOk ''Bad Gateway'') file_pdf =
     (Inl (Error ''Marker API error: Bad Gateway''),
      [FetchMarker (marker_request_of (Some ''key'') file_pdf)]) \<and>
   (\<lambda>req. MarkerReplied marker_refused) (marker_request_of (Some ''key'') file_pdf) =
     MarkerReplied marker_refused \<and> \<not> api_success marker_refused \<and>
   processFileWithMarker (Some ''key'') (\<lambda>req. MarkerReplied marker_refused) file_pdf =
     (Inl (Error ''Marker API error: unsupported file''),
      [FetchMarker (marker_request_of (Some ''key'') file_pdf)]) \<and>
   (\<lambda>req. MarkerReplied marker_ok) (marker_request_of (Some ''key'') file_pdf) =
     MarkerReplied marker_ok \<and> api_success marker_ok \<and>
   processFileWithMarker (Some ''key'') (\<lambda>req. MarkerReplied marker_ok) file_pdf =
     (Inr marker_ok, [FetchMarker (marker_request_of (Some ''key'') file_pdf)]) \<and>
   (\<lambda>req. if req_method req = ''POST'' then MarkerReplied marker_ok else MarkerRejects NonError)
       (marker_request_of (Some ''key'') file_pdf) =
     (\<lambda>req. MarkerReplied marker_ok) (marker_request_of (Some ''key'') file_pdf) \<and>
   processFileWithMarker (Some ''key'')
     (\<lambda>req. if req_method req = ''POST'' then MarkerReplied marker_ok else MarkerRejects NonError)
     file_pdf = (Inr marker_ok, [FetchMarker (marker_request_of (Some ''key'') file_pdf)]) \<and>
   snd (processFileWithMarker (Some ''key'') (\<lambda>req. MarkerReplied marker_ok) file_pdf) =
     [FetchMarker (marker_request_of (Some ''key'') file_pdf)]"
proof -
  have a: "\<not> api_success marker_refused" "api_success marker_ok"
    "api_error marker_refused = Some ''unsupported file''"
    by (simp_all add: ingest_defs)
  have g: "(\<lambda>req. if req_method req = ''POST'' then MarkerReplied marker_ok
                   else MarkerRejects NonError) (marker_request_of (Some ''key'') file_pdf) =
           (\<lambda>req. MarkerReplied marker_ok) (marker_request_of (Some ''key'') file_pdf)"
    by (simp add: marker_request_of_def)
  have c1: "processFileWithMarker (Some ''key'') (\<lambda>req. MarkerNotOk ''Bad Gateway'') file_pdf =
     (Inl (Error ''Marker API error: Bad Gateway''),
      [FetchMarker (marker_request_of (Some ''key'') file_pdf)])"
    using processFileWithMarker_form [of "Some ''key''" file_pdf
      "\<lambda>req. MarkerNotOk ''Bad Gateway''" "\<lambda>req. MarkerNotOk ''Bad Gateway''" "''Bad Gateway''"
      marker_ok]
    by simp
  have c2: "processFileWithMarker (Some ''key'') (\<lambda>req. MarkerReplied marker_refused) file_pdf =
     (Inl (Error ''Marker API error: unsupported file''),
      [FetchMarker (marker_request_of (Some ''key'') file_pdf)])"
    using processFileWithMarker_form [of "Some ''key''" file_pdf
      "\<lambda>req. MarkerReplied marker_refused" "\<lambda>req. MarkerReplied marker_refused" "[]"
      marker_refused] a
    by simp
  note t3 = processFileWithMarker_form [of "Some ''key''" file_pdf
      "\<lambda>req. MarkerReplied marker_ok"
      "\<lambda>req. if req_method req = ''POST'' then MarkerReplied marker_ok else MarkerRejects NonError"
      "[]" marker_ok]
  have c3: "processFileWithMarker (Some ''key'') (\<lambda>req. MarkerReplied marker_ok) file_pdf =
     (Inr marker_ok, [FetchMarker (marker_request_of (Some ''key'') file_pdf)])"
    using t3 a by simp
  have c4: "processFileWithMarker (Some ''key'')
     (\<lambda>req. if req_method req = ''POST'' then MarkerReplied marker_ok else MarkerRejects NonError)
     file_pdf = processFileWithMarker (Some ''key'') (\<lambda>req. MarkerReplied marker_ok) file_pdf"
    using t3 g by blast
  have c5: "snd (processFileWithMarker (Some ''key'') (\<lambda>req. MarkerReplied marker_ok) file_pdf) =
     [FetchMarker (marker_request_of (Some ''key'') file_pdf)]"
    using t3 by blast
  show ?thesis
    using a g c1 c2 c3 c4 c5 by simp
qed

section \<open>Properties of the server actions and of operation sequences\<close>

lemmas action_defs = ops_a_def img_a_def sum_a_def db_with_image_def db_without_image_def db_no_files_def
  db_complete_def env_still_processing_def env_unsuccessful_def

lemma gone_set:
  "c \<in> set cs \<Longrightarrow> cs_id c = ident \<Longrightarrow>
   set (map cs_id (filter (\<lambda>c. cs_id c = ident) cs)) = {ident}"
  by force

lemma delete_caseStudies_existing:
  assumes "c \<in> set (caseStudies d)" and "cs_id c = ident"
  shows "delete_caseStudies ident d =
           (if image_references ident d
            then Rejects ''violates foreign key constraint case_study_images_file_id_case_study_files_id_fk''
            else Resolves
              (d\<lparr>caseStudies := filter (\<lambda>c. cs_id c \<noteq> ident) (caseStudies d),
                 caseStudyFiles := filter (\<lambda>f. f_case_study_id f \<noteq> ident) (caseStudyFiles d),
                 caseStudySummaries :=
                   filter (\<lambda>s. sum_case_study_id s \<noteq> ident) (caseStudySummaries d)\<rparr>))"
proof -
  have g: "(x \<in> set (map cs_id (filter (\<lambda>c. cs_id c = ident) (caseStudies d)))) = (x = ident)"
    for x
    using gone_set [OF assms] by simp
  show ?thesis
    unfolding delete_caseStudies_def image_references_def files_of_def Let_def g
    by simp
qed

lemma delete_keeps_references:
  assumes "images_have_files d" and "\<not> image_references ident d"
  shows "images_have_files
           (d\<lparr>caseStudies := cs',
              caseStudyFiles := filter (\<lambda>f. f_case_study_id f \<noteq> ident) (caseStudyFiles d),
              caseStudySummaries := ss'\<rparr>)"
  using assms
  by (fastforce simp: images_have_files_def image_references_def files_of_def
      list_all_iff list_ex_iff)

text \<open>
  Claim C7, as amended. For an authenticated caller and an existing case study: when no
  Image row references one of its File rows, \<^verbatim>\<open>deleteCaseStudy\<close> removes the CaseStudy row
  together with all of its File rows and all of its Summary rows (cascade) and leaves the
  Image rows as they are; when some Image row references one of its File rows, the foreign
  key of \<^verbatim>\<open>case_study_images.file_id\<close> (declared without cascade: \<^verbatim>\<open>ON DELETE no action\<close>)
  rejects the statement, the action throws \<^verbatim>\<open>Failed to delete case study\<close> and no row of
  any table is removed. Either way no Image row is left without its File row.
\<close>

theorem deleteCaseStudy_cascade:
  assumes "\<not> falsy auth" and "c \<in> set (caseStudies d)" and "cs_id c = ident"
  shows "(image_references ident d \<longrightarrow>
            deleteCaseStudy auth ident d = (Inl (Error ''Failed to delete case study''), d)) \<and>
         (\<not> image_references ident d \<longrightarrow>
            deleteCaseStudy auth ident d =
              (Inr True,
               d\<lparr>caseStudies := filter (\<lambda>c. cs_id c \<noteq> ident) (caseStudies d),
                 caseStudyFiles := filter (\<lambda>f. f_case_study_id f \<noteq> ident) (caseStudyFiles d),
                 caseStudySummaries :=
                   filter (\<lambda>s. sum_case_study_id s \<noteq> ident) (caseStudySummaries d)\<rparr>)) \<and>
         (images_have_files d \<longrightarrow> images_have_files (snd (deleteCaseStudy auth ident d)))"
  using assms(1) delete_keeps_references [of d ident]
  by (simp add: deleteCaseStudy_def delete_caseStudies_existing [OF assms(2,3)])

text \<open>
  Claim C7 as stated fails: the case study has one File row, which one Image row
  references. The delete is rejected; the File row and the Summary row are still there.
\<close>

theorem deleteCaseStudy_blocked_by_image:
  "files_of ''cs-a'' db_with_image = [file_a] \<and>
   caseStudyImages db_with_image = [img_a] \<and> img_file_id img_a = f_id file_a \<and>
   deleteCaseStudy (Some ''user_1'') ''cs-a'' db_with_image =
     (Inl (Error ''Failed to delete case study''), db_with_image)"
  by (simp add: deleteCaseStudy_def delete_caseStudies_def files_of_def action_defs sample_defs)

text \<open>
  Claim C7 at two concrete databases: one where an Image row blocks the delete, one
  without images where the cascade removes the File row and the Summary row.
\<close>

theorem deleteCaseStudy_cascade_witness:
  "\<not> falsy (Some ''user_1'') \<and> cs_a \<in> set (caseStudies db_with_image) \<and> cs_id cs_a = ''cs-a'' \<and>
   image_references ''cs-a'' db_with_image \<and>
   deleteCaseStudy (Some ''user_1'') ''cs-a'' db_with_image =
     (Inl (Error ''Failed to delete case study''), db_with_image) \<and>
   cs_a \<in> set (caseStudies db_without_image) \<and>
   \<not> image_references ''cs-a'' db_without_image \<and>
   deleteCaseStudy (Some ''user_1'') ''cs-a'' db_without_image =
     (Inr True, \<lparr>users = [user_a], caseStudies = [], caseStudyFiles = [],
                 caseStudyImages = [], caseStudySummaries = []\<rparr>) \<and>
   images_have_files db_without_image \<and>
   images_have_files (snd (deleteCaseStudy (Some ''user_1'') ''cs-a'' db_without_image))"
proof -
  have a: "\<not> falsy (Some ''user_1'')" by simp
  have b1: "cs_a \<in> set (caseStudies db_with_image)" by (simp add: action_defs)
  have b2: "cs_a \<in> set (caseStudies db_without_image)" by (simp add: action_defs)
  have c: "cs_id cs_a = ''cs-a''" by (simp add: sample_defs)
  have r1: "image_references ''cs-a'' db_with_image"
    by (simp add: image_references_def files_of_def action_defs sample_defs)
  have r2: "\<not> image_references ''cs-a'' db_without_image"
    by (simp add: image_references_def files_of_def action_defs sample_defs)
  have i2: "images_have_files db_without_image"
    by (simp add: images_have_files_def action_defs)
  have e: "db_without_image
      \<lparr>caseStudies := filter (\<lambda>c. cs_id c \<noteq> ''cs-a'') (caseStudies db_without_image),
       caseStudyFiles :=
         filter (\<lambda>f. f_case_study_id f \<noteq> ''cs-a'') (caseStudyFiles db_without_image),
       caseStudySummaries :=
         filter (\<lambda>s. sum_case_study_id s \<noteq> ''cs-a'') (caseStudySummaries db_without_image)\<rparr> =
      \<lparr>users = [user_a], caseStudies = [], caseStudyFiles = [], caseStudyImages = [],
       caseStudySummaries = []\<rparr>"
    by (simp add: action_defs sample_defs)
  note t1 = deleteCaseStudy_cascade [OF a b1 c]
  note t2 = deleteCaseStudy_cascade [OF a b2 c]
  from t1 r1 have d1: "deleteCaseStudy (Some ''user_1'') ''cs-a'' db_with_image =
     (Inl (Error ''Failed to delete case study''), db_with_image)"
    by blast
  from t2 r2 have "deleteCaseStudy (Some ''user_1'') ''cs-a'' db_without_image =
     (Inr True, db_without_image
      \<lparr>caseStudies := filter (\<lambda>c. cs_id c \<noteq> ''cs-a'') (caseStudies db_without_image),
       caseStudyFiles :=
         filter (\<lambda>f. f_case_study_id f \<noteq> ''cs-a'') (caseStudyFiles db_without_image),
       caseStudySummaries :=
         filter (\<lambda>s. sum_case_study_id s \<noteq> ''cs-a'') (caseStudySummaries db_without_image)\<rparr>)"
    by blast
  then have d2: "deleteCaseStudy (Some ''user_1'') ''cs-a'' db_without_image =
     (Inr True, \<lparr>users = [user_a], caseStudies = [], caseStudyFiles = [],
                 caseStudyImages = [], caseStudySummaries = []\<rparr>)"
    by (simp only: e)
  from t2 i2 have d3:
    "images_have_files (snd (deleteCaseStudy (Some ''user_1'') ''cs-a'' db_without_image))"
    by blast
  from a b1 b2 c r1 r2 i2 d1 d2 d3 show ?thesis by blast
qed


lemma imageMap_push_apply:
  "imageMap_push img m k =
     (if k = img_file_id img
      then Some ((case m k of None \<Rightarrow> [] | Some bucket \<Rightarrow> bucket) @ [img])
      else m k)"
  by (simp add: imageMap_push_def Let_def split: option.splits)

lemma fold_imageMap_push:
  "fold imageMap_push imgs m k =
     (if filter (\<lambda>i. img_file_id i = k) imgs = [] then m k
      else Some ((case m k of None \<Rightarrow> [] | Some bucket \<Rightarrow> bucket) @
                 filter (\<lambda>i. img_file_id i = k) imgs))"
  by (induction imgs arbitrary: m) (auto simp: imageMap_push_apply split: option.splits)

lemma imageMap_bucket:
  "(case fold imageMap_push imgs Map.empty k of None \<Rightarrow> [] | Some bucket \<Rightarrow> bucket) =
     filter (\<lambda>i. img_file_id i = k) imgs"
  by (simp add: fold_imageMap_push)

text \<open>Where the action does return the full case study: it has a File row, or no Summary row.\<close>

lemma getCaseStudyById_full:
  assumes "filter (\<lambda>c. cs_id c = ident) (caseStudies d) = caseStudy # rest"
    and "files_of ident d \<noteq> [] \<or> summaries_of ident d = []"
  shows "getCaseStudyById ident d = Inr (full_case_study caseStudy d)"
proof -
  have i: "cs_id caseStudy = ident"
    using filter_ConsD [OF assms(1)] .
  have b: "fl \<in> set (files_of ident d) \<Longrightarrow>
           filter (\<lambda>x. img_file_id x = f_id fl)
             (filter (\<lambda>i. img_file_id i \<in> set (map f_id (files_of ident d))) (caseStudyImages d)) =
           filter (\<lambda>i. img_file_id i = f_id fl) (caseStudyImages d)" for fl
    by (induction "caseStudyImages d") (auto intro: filter_cong)
  show ?thesis
  proof (cases "files_of ident d = []")
    case True
    with assms(2) have "summaries_of ident d = []" by simp
    with True assms(1) i show ?thesis
      by (simp add: getCaseStudyById_def full_case_study_def files_of_def summaries_of_def)
  next
    case False
    with assms(1) i b show ?thesis
      by (simp add: getCaseStudyById_def full_case_study_def imageMap_bucket Let_def
          files_of_def [symmetric] summaries_of_def [symmetric])
  qed
qed

text \<open>
  Claim C10 at the failing input: the case study exists, has no File row and has one
  Summary row. \<^verbatim>\<open>getCaseStudyById\<close> takes no caller and checks none, but its early return
  for a case study without files answers \<^verbatim>\<open>summaries: []\<close>: the Summary row it has just
  selected is not part of the result.
\<close>

theorem getCaseStudyById_drops_summaries:
  "getCaseStudyById ''cs-a'' db_no_files =
     Inr \<lparr>cw_caseStudy = cs_a, cw_files = [], cw_summaries = []\<rparr> \<and>
   full_case_study cs_a db_no_files =
     \<lparr>cw_caseStudy = cs_a, cw_files = [], cw_summaries = [sum_a]\<rparr> \<and>
   getCaseStudyById ''cs-a'' db_no_files \<noteq> Inr (full_case_study cs_a db_no_files)"
  by (simp add: getCaseStudyById_def full_case_study_def files_of_def summaries_of_def
      action_defs sample_defs)

lemma actions_require_auth:
  assumes "falsy auth"
  shows "getAllCaseStudies auth d = Inl (Error ''User not authenticated'')"
    and "getCaseStudySummary auth ident d = Inl (Error ''User not authenticated'')"
    and "saveCaseStudy auth now ident content d = (Inl (Error ''User not authenticated''), d)"
    and "deleteCaseStudy auth ident d = (Inl (Error ''User not authenticated''), d)"
    and "createOnePager auth oenv fileContent ident d = (Inl (Error ''User not authenticated''), d)"
    and "createCaseStudy auth cenv caseStudy d = (Inl (Error ''User not authenticated''), d, [], [])"
  using assms
  by (cases auth; simp add: getAllCaseStudies_def getCaseStudySummary_def saveCaseStudy_def
      deleteCaseStudy_def createOnePager_def createCaseStudy_def)+



lemma file_tasks_dbD:
  "file_tasks api_key tenv cs i urls d = (d2, l, c) \<Longrightarrow>
   caseStudyFiles d2 = caseStudyFiles d @
     concat (map (\<lambda>(j, u). case expected_row api_key (tenv j) (cs_id cs) u of
                              None \<Rightarrow> [] | Some r \<Rightarrow> [r]) (enumerate i urls))"
  using file_tasks_db [of api_key tenv cs i urls d] by simp





















end
